theory Spec2Isabelle
  imports Main
begin

section \<open>Python values used by the Django adapter\<close>

text \<open>
  The adapter (\<^verbatim>\<open>scout_apm/django/middleware.py\<close>) is Python. Exceptions are values:
  a function that can raise returns \<open>exception + 'a\<close>, with \<open>Inl\<close> the exception
  that propagates. Only subclasses of Python's \<^verbatim>\<open>Exception\<close> occur (what
  \<^verbatim>\<open>except Exception\<close> catches).
\<close>

datatype exception = ValueError | OverflowError | AttributeError | TypeError | OtherError string

text \<open>
  Python values the adapter handles, as far as it tells them apart: the values stored
  under a tag (\<^verbatim>\<open>True\<close>, the string \<^verbatim>\<open>"true"\<close>, an integer number of
  microseconds, strings, \<^verbatim>\<open>None\<close>), and the value of an attribute that should be
  a string and need not be one.
\<close>

datatype tag_value = TBool bool | TInt int | TStr string | TNone

subsection \<open>The builtin \<^verbatim>\<open>float(str)\<close>\<close>

text \<open>
  A parsed float is kept as the exact decimal it denotes: \<open>Finite m e\<close> is
  \<open>m * 10 ^ e\<close>. The rounding of that decimal to the nearest binary double is not
  modelled; for a timestamp of ten digits before the point and three after it, below
  \<open>2 ^ 33\<close> seconds, the microseconds that \<^verbatim>\<open>utcfromtimestamp\<close> reads from the
  double are those of the decimal.
  The grammar is the one of CPython 3 for a string of 8-bit characters:
  surrounding whitespace, a sign, \<^verbatim>\<open>inf\<close>, \<^verbatim>\<open>infinity\<close> or
  \<^verbatim>\<open>nan\<close> in any case, or digits (single underscores between digits allowed) with
  an optional point and an optional exponent.
\<close>

datatype pyfloat = Finite int int | Infinite bool | NaN

definition is_digit :: "char \<Rightarrow> bool" where
  "is_digit c = (48 \<le> (of_char c :: int) \<and> (of_char c :: int) \<le> 57)"

definition digit_val :: "char \<Rightarrow> int" where
  "digit_val c = of_char c - 48"

definition is_space :: "char \<Rightarrow> bool" where
  "is_space c = ((of_char c :: int) \<in> {9, 10, 11, 12, 13, 32, 133, 160})"

definition lower :: "char \<Rightarrow> char" where
  "lower c = (if 65 \<le> (of_char c :: int) \<and> (of_char c :: int) \<le> 90
              then char_of ((of_char c :: int) + 32) else c)"

definition digits_value :: "string \<Rightarrow> int" where
  "digits_value ds = foldl (\<lambda>n c. 10 * n + digit_val c) 0 ds"

definition strip :: "string \<Rightarrow> string" where
  "strip s = rev (dropWhile is_space (rev (dropWhile is_space s)))"

text \<open>\<^verbatim>\<open>(["_"] digit)*\<close>: the digits read, underscores dropped, and the rest.\<close>

fun digits_tail :: "string \<Rightarrow> string \<times> string" where
  "digits_tail [] = ([], [])"
| "digits_tail [c] = (if is_digit c then ([c], []) else ([], [c]))"
| "digits_tail (c # d # cs) =
     (if is_digit c then (case digits_tail (d # cs) of (ds, r) \<Rightarrow> (c # ds, r))
      else if c = CHR ''_'' \<and> is_digit d then (case digits_tail cs of (ds, r) \<Rightarrow> (d # ds, r))
      else ([], c # d # cs))"

text \<open>\<^verbatim>\<open>digitpart ::= digit (["_"] digit)*\<close>\<close>

definition digitpart :: "string \<Rightarrow> (string \<times> string) option" where
  "digitpart s =
     (case s of
        [] \<Rightarrow> None
      | c # cs \<Rightarrow> if is_digit c then (case digits_tail cs of (ds, r) \<Rightarrow> Some (c # ds, r)) else None)"

text \<open>\<^verbatim>\<open>number ::= [digitpart] "." digitpart | digitpart ["."]\<close>, as the digits before
  the point, the digits after it, and the rest.\<close>

definition number :: "string \<Rightarrow> (string \<times> string \<times> string) option" where
  "number s =
     (case digitpart s of
        Some (ip, r) \<Rightarrow>
          (case r of
             [] \<Rightarrow> Some (ip, [], [])
           | c # r' \<Rightarrow>
               if c = CHR ''.'' then
                 (case digitpart r' of
                    Some (fp, r'') \<Rightarrow> Some (ip, fp, r'')
                  | None \<Rightarrow> Some (ip, [], r'))
               else Some (ip, [], r))
      | None \<Rightarrow>
          (case s of
             [] \<Rightarrow> None
           | c # r' \<Rightarrow>
               if c = CHR ''.'' then
                 (case digitpart r' of
                    Some (fp, r'') \<Rightarrow> Some ([], fp, r'')
                  | None \<Rightarrow> None)
               else None))"

definition sign :: "string \<Rightarrow> bool \<times> string" where
  "sign s =
     (case s of
        [] \<Rightarrow> (False, [])
      | c # cs \<Rightarrow> if c = CHR ''-'' then (True, cs) else if c = CHR ''+'' then (False, cs)
                 else (False, s))"

text \<open>\<^verbatim>\<open>[("e" | "E") [sign] digitpart]\<close> up to the end of the string: the exponent's
  value, \<open>None\<close> when something else follows the number.\<close>

definition exponent :: "string \<Rightarrow> int option" where
  "exponent s =
     (case s of
        [] \<Rightarrow> Some 0
      | c # cs \<Rightarrow>
          if c = CHR ''e'' \<or> c = CHR ''E'' then
            (case sign cs of
               (neg, ds) \<Rightarrow>
                 (case digitpart ds of
                    Some (xs, []) \<Rightarrow> Some (if neg then - digits_value xs else digits_value xs)
                  | Some (xs, _ # _) \<Rightarrow> None
                  | None \<Rightarrow> None))
          else None)"

definition py_float :: "string \<Rightarrow> exception + pyfloat" where
  "py_float s =
     (case sign (strip s) of
        (neg, u) \<Rightarrow>
          if map lower u = ''inf'' \<or> map lower u = ''infinity'' then Inr (Infinite neg)
          else if map lower u = ''nan'' then Inr NaN
          else
            (case number u of
               None \<Rightarrow> Inl ValueError
             | Some (ip, fp, r) \<Rightarrow>
                 (case exponent r of
                    None \<Rightarrow> Inl ValueError
                  | Some x \<Rightarrow>
                      Inr (Finite ((if neg then - 1 else 1) * digits_value (ip @ fp))
                                  (x - int (length fp))))))"

subsection \<open>The builtin \<^verbatim>\<open>datetime.utcfromtimestamp\<close>\<close>

text \<open>
  A naive UTC \<^verbatim>\<open>datetime\<close> is an integer number of microseconds since the epoch,
  which is its resolution. \<^verbatim>\<open>utcfromtimestamp\<close> rounds the float to microseconds
  (half to even) and raises for NaN, for an infinity, and for a value outside the years
  1 to 9999. CPython raises \<^verbatim>\<open>OverflowError\<close> beyond the range of a 64-bit
  \<^verbatim>\<open>time_t\<close> and \<^verbatim>\<open>ValueError\<close> for a year out of range (where the
  platform's \<^verbatim>\<open>gmtime\<close> fails first it is \<^verbatim>\<open>OSError\<close>, which the model
  does not tell apart from \<^verbatim>\<open>ValueError\<close>).
\<close>

definition round_half_even :: "int \<Rightarrow> int \<Rightarrow> int" where
  "round_half_even n d =
     (let q = n div d; r = n mod d in
      if 2 * r < d then q
      else if d < 2 * r then q + 1
      else if even q then q else q + 1)"

definition to_microseconds :: "int \<Rightarrow> int \<Rightarrow> int" where
  "to_microseconds m e =
     (if 0 \<le> e + 6 then m * 10 ^ nat (e + 6) else round_half_even m (10 ^ nat (- (e + 6))))"

definition min_datetime :: int where
  "min_datetime = - 62135596800 * 1000000"

definition max_datetime :: int where
  "max_datetime = 253402300800 * 1000000 - 1"

definition utcfromtimestamp :: "pyfloat \<Rightarrow> exception + int" where
  "utcfromtimestamp t =
     (case t of
        NaN \<Rightarrow> Inl ValueError
      | Infinite neg \<Rightarrow> Inl OverflowError
      | Finite m e \<Rightarrow>
          (let us = to_microseconds m e in
           if us < - (2 ^ 63) * 1000000 \<or> 2 ^ 63 * 1000000 \<le> us then Inl OverflowError
           else if us < min_datetime \<or> max_datetime < us then Inl ValueError
           else Inr us))"

subsection \<open>Doubles in \<^verbatim>\<open>int(queue_time.total_seconds() * 1000000)\<close>\<close>

text \<open>
  Line 37 computes in IEEE doubles. A double that is not negative is the pair \<open>(m, e)\<close>
  of its value \<open>m * 2 ^ e\<close>. \<open>to_double n d\<close> is the double nearest to the fraction
  \<open>n / d\<close> (ties to even), for \<open>0 \<le> n\<close> and \<open>0 < d\<close>: the mantissa has 53 bits.
  The values of line 37 lie far from the subnormal and from the overflow range, which
  are not modelled.
\<close>

text \<open>The number of binary digits of a positive integer.\<close>

function bit_length :: "int \<Rightarrow> int" where
  "bit_length n = (if n \<le> 0 then 0 else 1 + bit_length (n div 2))"
  by pat_completeness auto
termination
  by (relation "measure nat") auto

declare bit_length.simps [simp del]

text \<open>The fraction \<open>(n / d) / 2 ^ e\<close>, as numerator and denominator.\<close>

definition scale :: "int \<Rightarrow> int \<Rightarrow> int \<Rightarrow> int \<times> int" where
  "scale n d e = (if 0 \<le> e then (n, d * 2 ^ nat e) else (n * 2 ^ nat (- e), d))"

text \<open>The \<open>p\<close> with \<open>2 ^ p \<le> n / d < 2 ^ (p + 1)\<close>.\<close>

definition binary_exponent :: "int \<Rightarrow> int \<Rightarrow> int" where
  "binary_exponent n d =
     (let k = bit_length n - bit_length d in
      case scale n d k of (n', d') \<Rightarrow> if d' \<le> n' then k else k - 1)"

definition to_double :: "int \<Rightarrow> int \<Rightarrow> int \<times> int" where
  "to_double n d =
     (if n = 0 then (0, 0)
      else (let e = binary_exponent n d - 52 in
            case scale n d e of (n', d') \<Rightarrow> (round_half_even n' d', e)))"

text \<open>\<^verbatim>\<open>timedelta.total_seconds()\<close> of a difference of \<open>us\<close> microseconds: the
  true division of two integers, correctly rounded.\<close>

definition total_seconds :: "int \<Rightarrow> int \<times> int" where
  "total_seconds us = to_double us 1000000"

text \<open>The product of a double and an integer that is itself a double, rounded.\<close>

definition double_times :: "int \<times> int \<Rightarrow> int \<Rightarrow> int \<times> int" where
  "double_times x k =
     (case x of
        (m, e) \<Rightarrow> if 0 \<le> e then to_double (m * k * 2 ^ nat e) 1
                  else to_double (m * k) (2 ^ nat (- e)))"

text \<open>\<^verbatim>\<open>int(x)\<close> of a double that is not negative: the integer part.\<close>

definition py_int :: "int \<times> int \<Rightarrow> int" where
  "py_int x = (case x of (m, e) \<Rightarrow> if 0 \<le> e then m * 2 ^ nat e else m div 2 ^ nat (- e))"

subsection \<open>The pattern \<^verbatim>\<open>queue_time_re = re.compile(r"(t=|\.)")\<close>\<close>

text \<open>
  \<^verbatim>\<open>queue_time_re.sub("", s)\<close> scans from the left and deletes every match: at each
  position the two characters \<^verbatim>\<open>t=\<close> if they stand there, else a single point.
\<close>

fun queue_time_re_sub :: "string \<Rightarrow> string" where
  "queue_time_re_sub [] = []"
| "queue_time_re_sub [c] = (if c = CHR ''.'' then [] else [c])"
| "queue_time_re_sub (c # d # cs) =
     (if c = CHR ''t'' \<and> d = CHR ''='' then queue_time_re_sub cs
      else if c = CHR ''.'' then queue_time_re_sub (d # cs)
      else c # queue_time_re_sub (d # cs))"

section \<open>The tracking engine the adapter calls\<close>

text \<open>
  Modelled from the spec: the state of the tracking engine. Its modules
  (\<^verbatim>\<open>scout_apm.core.tracked_request\<close>, \<^verbatim>\<open>scout_apm.api.context\<close>) are missing
  from the source files; the adapter only calls them. The state is restricted to what the
  adapter reads or writes: the stack of open spans, the request-level tags, the
  \<open>real_request\<close> flag and the start time of a tracked request, the binding of the
  execution context to its current tracked request, and the context store. Span
  timestamps, span tags and the call-set detector are left out.
  Python objects are referred to by address: a tracked request by its index in
  \<open>objects\<close>, a span by its \<open>span_id\<close>, which is never reused. Python's \<^verbatim>\<open>==\<close>
  on two spans is the comparison of these identities.
\<close>

record span =
  span_id :: nat
  operation :: string
  parent :: "nat option"

record tracked_request =
  start_time :: int
  spans :: "span list"
  tags :: "string \<rightharpoonup> tag_value"
  real_request :: bool

record engine =
  objects :: "nat \<Rightarrow> tracked_request"
  allocated :: nat
  current :: "nat option"
  exported :: "nat list"
  next_span :: nat
  now :: int
  context_store :: "string \<rightharpoonup> tag_value"

text \<open>Modelled from the spec: a tracked request as \<^verbatim>\<open>instance()\<close> creates it (the
  class \<^verbatim>\<open>TrackedRequest\<close> is missing), with no open span, no tag, not yet a real
  request, started at the time of its creation.\<close>

definition new_request :: "int \<Rightarrow> tracked_request" where
  "new_request t = \<lparr>start_time = t, spans = [], tags = Map.empty, real_request = False\<rparr>"

text \<open>Modelled from the spec: \<^verbatim>\<open>TrackedRequest.instance()\<close> (missing) returns the
  tracked request bound to the calling execution context, creating one if absent.\<close>

definition engine_instance :: "engine \<Rightarrow> nat \<times> engine" where
  "engine_instance e =
     (case current e of
        Some a \<Rightarrow> (a, e)
      | None \<Rightarrow>
          (allocated e,
           e\<lparr>objects := (objects e)(allocated e := new_request (now e)),
             allocated := Suc (allocated e),
             current := Some (allocated e)\<rparr>))"

text \<open>Modelled from the spec: \<^verbatim>\<open>current_span()\<close> (missing) peeks at the top of the
  stack without mutation; \<open>None\<close> is Python's \<^verbatim>\<open>None\<close>.\<close>

definition engine_current_span :: "nat \<Rightarrow> engine \<Rightarrow> nat option" where
  "engine_current_span a e =
     (case spans (objects e a) of [] \<Rightarrow> None | s # rest \<Rightarrow> Some (span_id s))"

text \<open>Modelled from the spec: \<^verbatim>\<open>start_span(operation)\<close> (missing) creates a new span
  whose parent is the current top of the stack (or null), pushes it and returns it; it
  always succeeds.\<close>

definition engine_start_span :: "nat \<Rightarrow> string \<Rightarrow> engine \<Rightarrow> nat \<times> engine" where
  "engine_start_span a name e =
     (let tr = objects e a;
          sp = \<lparr>span_id = next_span e, operation = name,
                parent = engine_current_span a e\<rparr>
      in (next_span e,
          e\<lparr>objects := (objects e)(a := tr\<lparr>spans := sp # spans tr\<rparr>),
            next_span := Suc (next_span e)\<rparr>))"

text \<open>Modelled from the spec: \<^verbatim>\<open>stop_span()\<close> (missing) pops the top-of-stack span
  and, if the stack becomes empty, triggers request finalization (queues for export) and
  detaches the instance-lookup so that a future \<^verbatim>\<open>instance()\<close> call starts fresh. On
  an empty stack it is a no-op.\<close>

definition engine_stop_span :: "nat \<Rightarrow> engine \<Rightarrow> engine" where
  "engine_stop_span a e =
     (let tr = objects e a in
      case spans tr of
        [] \<Rightarrow> e
      | sp # rest \<Rightarrow>
          (let e' = e\<lparr>objects := (objects e)(a := tr\<lparr>spans := rest\<rparr>)\<rparr> in
           if rest = []
           then e'\<lparr>exported := exported e' @ [a],
                   current := (if current e' = Some a then None else current e')\<rparr>
           else e'))"

text \<open>Modelled from the spec: \<^verbatim>\<open>tag(key, value)\<close> (missing) attaches to the
  request-level tag map.\<close>

definition engine_tag :: "nat \<Rightarrow> string \<Rightarrow> tag_value \<Rightarrow> engine \<Rightarrow> engine" where
  "engine_tag a key v e =
     e\<lparr>objects := (objects e)(a := (objects e a)\<lparr>tags := (tags (objects e a))(key \<mapsto> v)\<rparr>)\<rparr>"

text \<open>Modelled from the spec: \<^verbatim>\<open>mark_real_request()\<close> (missing) sets the
  \<open>real_request\<close> flag.\<close>

definition engine_mark_real_request :: "nat \<Rightarrow> engine \<Rightarrow> engine" where
  "engine_mark_real_request a e =
     e\<lparr>objects := (objects e)(a := (objects e a)\<lparr>real_request := True\<rparr>)\<rparr>"

text \<open>Modelled from the spec: the operation name of a span is mutable; the assignment
  \<^verbatim>\<open>span.operation = name\<close> acts on the span object (class \<^verbatim>\<open>Span\<close> is missing),
  here the span of that identity on the stack of the tracked request it was read from.\<close>

definition engine_set_operation :: "nat \<Rightarrow> nat \<Rightarrow> string \<Rightarrow> engine \<Rightarrow> engine" where
  "engine_set_operation a sp name e =
     e\<lparr>objects := (objects e)(a := (objects e a)
         \<lparr>spans := map (\<lambda>s. if span_id s = sp then s\<lparr>operation := name\<rparr> else s)
                        (spans (objects e a))\<rparr>)\<rparr>"

text \<open>Modelled from the spec: \<^verbatim>\<open>Context.add(key, value)\<close> (missing) stores into the
  request-scoped context store, a plain associative store.\<close>

definition engine_Context_add :: "string \<Rightarrow> tag_value \<Rightarrow> engine \<Rightarrow> engine" where
  "engine_Context_add key v e = e\<lparr>context_store := (context_store e)(key \<mapsto> v)\<rparr>"

subsection \<open>The adapter's calls, recorded\<close>

text \<open>
  To count what one invocation of the adapter does, the calls it issues are recorded in
  order, next to the engine's state. The host's \<^verbatim>\<open>get_response\<close> works on the
  engine's state only (it may itself run middleware, views and engine calls); its
  invocation is recorded as \<open>GetResponse\<close>.
\<close>

datatype call =
    StartSpan nat string
  | StopSpan nat
  | Tag nat string tag_value
  | MarkRealRequest nat
  | SetOperation nat string
  | ContextAdd string tag_value
  | GetResponse

record world =
  eng :: engine
  trace :: "call list"

definition TrackedRequest_instance :: "world \<Rightarrow> nat \<times> world" where
  "TrackedRequest_instance w = (case engine_instance (eng w) of (a, e) \<Rightarrow> (a, w\<lparr>eng := e\<rparr>))"

definition current_span :: "nat \<Rightarrow> world \<Rightarrow> nat option" where
  "current_span a w = engine_current_span a (eng w)"

definition start_span :: "nat \<Rightarrow> string \<Rightarrow> world \<Rightarrow> nat \<times> world" where
  "start_span a name w =
     (case engine_start_span a name (eng w) of
        (sp, e) \<Rightarrow> (sp, \<lparr>eng = e, trace = trace w @ [StartSpan a name]\<rparr>))"

definition stop_span :: "nat \<Rightarrow> world \<Rightarrow> world" where
  "stop_span a w = \<lparr>eng = engine_stop_span a (eng w), trace = trace w @ [StopSpan a]\<rparr>"

definition tag :: "nat \<Rightarrow> string \<Rightarrow> tag_value \<Rightarrow> world \<Rightarrow> world" where
  "tag a key v w = \<lparr>eng = engine_tag a key v (eng w), trace = trace w @ [Tag a key v]\<rparr>"

definition mark_real_request :: "nat \<Rightarrow> world \<Rightarrow> world" where
  "mark_real_request a w =
     \<lparr>eng = engine_mark_real_request a (eng w), trace = trace w @ [MarkRealRequest a]\<rparr>"

definition set_operation :: "nat \<Rightarrow> nat \<Rightarrow> string \<Rightarrow> world \<Rightarrow> world" where
  "set_operation a sp name w =
     \<lparr>eng = engine_set_operation a sp name (eng w), trace = trace w @ [SetOperation sp name]\<rparr>"

definition Context_add :: "string \<Rightarrow> tag_value \<Rightarrow> world \<Rightarrow> world" where
  "Context_add key v w =
     \<lparr>eng = engine_Context_add key v (eng w), trace = trace w @ [ContextAdd key v]\<rparr>"

definition host ::
  "('q \<Rightarrow> engine \<Rightarrow> (exception + 'r) \<times> engine) \<Rightarrow> 'q \<Rightarrow> world \<Rightarrow> (exception + 'r) \<times> world" where
  "host get_response request w =
     (case get_response request (eng w) of
        (response, e) \<Rightarrow> (response, \<lparr>eng = e, trace = trace w @ [GetResponse]\<rparr>))"

section \<open>The Django adapter: \<^verbatim>\<open>scout_apm/django/middleware.py\<close>\<close>

text \<open>
  A Django request, as far as the adapter touches it. An attribute access that may raise
  is a sum. \<open>resolver_match\<close> is \<^verbatim>\<open>request.resolver_match._func_path\<close>, a string
  (\<open>TStr\<close>) in a request that Django resolved, any value otherwise. \<open>user\<close>
  is the attribute \<^verbatim>\<open>request.user\<close>: \<open>Inl AttributeError\<close> when it is absent,
  \<open>Inr None\<close> when it is \<^verbatim>\<open>None\<close>, and \<open>Inr (Some r)\<close> for a user object whose
  \<^verbatim>\<open>get_username()\<close> gives \<open>r\<close>. The last two fields are the attributes the
  old-style middleware sets on the request, absent until then.
\<close>

record request =
  META :: "string \<rightharpoonup> string"
  path :: "exception + string"
  resolver_match :: "exception + tag_value"
  user :: "exception + (exception + string) option"
  scout_middleware_span :: "nat option"
  scout_view_span :: "nat option"

text \<open>
  Two helpers of the repository that the adapter imports and that are not among the
  source files are parameters: \<^verbatim>\<open>scout_apm.core.ignore.ignore_path\<close>, a pure
  predicate that never raises, and \<^verbatim>\<open>RemoteIp.lookup_from_headers\<close>.
\<close>

record collaborators =
  ignore_path :: "string \<Rightarrow> bool"
  lookup_from_headers :: "(string \<rightharpoonup> string) \<Rightarrow> exception + tag_value"

subsection \<open>\<^verbatim>\<open>track_request_queue_time\<close>\<close>

text \<open>\<^verbatim>\<open>a or b\<close> on the results of two \<^verbatim>\<open>dict.get\<close> calls: the first if it is
  a non-empty string, else the second.\<close>

definition py_or :: "string option \<Rightarrow> string option \<Rightarrow> string option" where
  "py_or a b = (case a of None \<Rightarrow> b | Some s \<Rightarrow> if s = [] then b else Some s)"

definition header_value :: "request \<Rightarrow> string option" where
  "header_value request =
     py_or (META request ''HTTP_X_QUEUE_START'') (META request ''HTTP_X_REQUEST_START'')"

text \<open>The argument of \<^verbatim>\<open>float\<close>: \<^verbatim>\<open>raw_start[0:10] + "." + raw_start[10:13]\<close>.\<close>

definition timestamp_text :: "string \<Rightarrow> string" where
  "timestamp_text raw_start = take 10 raw_start @ ''.'' @ take 3 (drop 10 raw_start)"

text \<open>
  The result is the exception that propagates, if any, and the world after the call.
  \<open>queue_time\<close>, a \<^verbatim>\<open>timedelta\<close>, is its number of microseconds.
\<close>

definition track_request_queue_time :: "request \<Rightarrow> nat \<Rightarrow> world \<Rightarrow> (exception + unit) \<times> world" where
  "track_request_queue_time request tracked_request w =
     (case header_value request of
        None \<Rightarrow> (Inr (), w)
      | Some hv \<Rightarrow>
          if hv = [] then (Inr (), w)
          else
            (let raw_start = queue_time_re_sub hv in
             case py_float (timestamp_text raw_start) of
               Inl e \<Rightarrow> if e = ValueError then (Inr (), w) else (Inl e, w)
             | Inr timestamp \<Rightarrow>
                 (case utcfromtimestamp timestamp of
                    Inl e \<Rightarrow> (Inl e, w)
                  | Inr parsed_start \<Rightarrow>
                      if parsed_start > start_time (objects (eng w) tracked_request) then (Inr (), w)
                      else
                        (let queue_time = start_time (objects (eng w) tracked_request) - parsed_start;
                             queue_time_us = py_int (double_times (total_seconds queue_time) 1000000)
                         in (Inr (), tag tracked_request ''scout.queue_time_us'' (TInt queue_time_us) w)))))"

text \<open>\<^verbatim>\<open>"Controller/" + view_name\<close>: the concatenation of a string and a value
  raises \<^verbatim>\<open>TypeError\<close> unless the value is a string.\<close>

definition str_add :: "string \<Rightarrow> tag_value \<Rightarrow> exception + string" where
  "str_add s v = (case v of TStr t \<Rightarrow> Inr (s @ t) | TBool b \<Rightarrow> Inl TypeError
                  | TInt i \<Rightarrow> Inl TypeError | TNone \<Rightarrow> Inl TypeError)"

subsection \<open>New-style middleware\<close>

text \<open>
  \<^verbatim>\<open>MiddlewareTimingMiddleware.__call__\<close>. The call of
  \<^verbatim>\<open>track_request_queue_time\<close> stands before the \<^verbatim>\<open>try\<close>: an exception it
  raises propagates at once. Under \<^verbatim>\<open>try ... finally\<close> the span is stopped whether
  \<^verbatim>\<open>get_response\<close> returned or raised, and its outcome is passed on.
\<close>

definition MiddlewareTimingMiddleware_call ::
  "(request \<Rightarrow> engine \<Rightarrow> (exception + 'r) \<times> engine) \<Rightarrow> request \<Rightarrow> world
     \<Rightarrow> (exception + 'r) \<times> world" where
  "MiddlewareTimingMiddleware_call get_response request w0 =
     (case TrackedRequest_instance w0 of
        (tracked_request, w1) \<Rightarrow>
          (case start_span tracked_request ''Middleware'' w1 of
             (sp, w2) \<Rightarrow>
               (case track_request_queue_time request tracked_request w2 of
                  (Inl e, w3) \<Rightarrow> (Inl e, w3)
                | (Inr u, w3) \<Rightarrow>
                    (case host get_response request w3 of
                       (response, w4) \<Rightarrow>
                         (case TrackedRequest_instance w4 of
                            (tr, w5) \<Rightarrow> (response, stop_span tr w5))))))"

text \<open>\<^verbatim>\<open>ViewTimingMiddleware.__call__\<close>: the tracked request looked up at the start
  is the one marked, started on and stopped on.\<close>

definition ViewTimingMiddleware_call ::
  "(request \<Rightarrow> engine \<Rightarrow> (exception + 'r) \<times> engine) \<Rightarrow> request \<Rightarrow> world
     \<Rightarrow> (exception + 'r) \<times> world" where
  "ViewTimingMiddleware_call get_response request w0 =
     (case TrackedRequest_instance w0 of
        (tr, w1) \<Rightarrow>
          (let w2 = mark_real_request tr w1 in
           case start_span tr ''Unknown'' w2 of
             (sp, w3) \<Rightarrow>
               (case host get_response request w3 of
                  (response, w4) \<Rightarrow> (response, stop_span tr w4))))"

text \<open>The body of the \<^verbatim>\<open>try\<close> block of \<^verbatim>\<open>ViewTimingMiddleware.process_view\<close>,
  statement by statement; the first exception ends it.\<close>

definition ViewTimingMiddleware_process_view_try ::
  "collaborators \<Rightarrow> request \<Rightarrow> world \<Rightarrow> (exception + unit) \<times> world" where
  "ViewTimingMiddleware_process_view_try deps request w0 =
     (case path request of
        Inl e \<Rightarrow> (Inl e, w0)
      | Inr p \<Rightarrow>
          (let w1 = (if ignore_path deps p
                     then (case TrackedRequest_instance w0 of
                             (tr, w) \<Rightarrow> tag tr ''ignore_transaction'' (TBool True) w)
                     else w0)
           in case resolver_match request of
                Inl e \<Rightarrow> (Inl e, w1)
              | Inr view_name \<Rightarrow>
                  (case TrackedRequest_instance w1 of
                     (tr, w2) \<Rightarrow>
                       (case current_span tr w2 of
                          None \<Rightarrow> (Inr (), w2)
                        | Some sp \<Rightarrow>
                            (case str_add ''Controller/'' view_name of
                               Inl e \<Rightarrow> (Inl e, w2)
                             | Inr name \<Rightarrow>
                                 (let w3 = set_operation tr sp name w2;
                                      w4 = Context_add ''path'' (TStr p) w3
                                  in case lookup_from_headers deps (META request) of
                                       Inl e \<Rightarrow> (Inl e, w4)
                                     | Inr ip \<Rightarrow>
                                         (let w5 = Context_add ''user_ip'' ip w4 in
                                          case user request of
                                            Inl e \<Rightarrow>
                                              if e = AttributeError then (Inr (), w5) else (Inl e, w5)
                                          | Inr None \<Rightarrow> (Inr (), w5)
                                          | Inr (Some get_username) \<Rightarrow>
                                              (case get_username of
                                                 Inl e \<Rightarrow> (Inl e, w5)
                                               | Inr username \<Rightarrow>
                                                   (Inr (), Context_add ''username'' (TStr username)
                                                              w5)))))))))"

text \<open>\<^verbatim>\<open>ViewTimingMiddleware.process_view\<close>: \<^verbatim>\<open>except Exception: pass\<close> around the
  whole body.\<close>

definition ViewTimingMiddleware_process_view ::
  "collaborators \<Rightarrow> request \<Rightarrow> world \<Rightarrow> (exception + unit) \<times> world" where
  "ViewTimingMiddleware_process_view deps request w =
     (case ViewTimingMiddleware_process_view_try deps request w of
        (Inl e, w') \<Rightarrow> (Inr (), w')
      | (Inr u, w') \<Rightarrow> (Inr (), w'))"

subsection \<open>Old-style middleware\<close>

text \<open>\<^verbatim>\<open>OldStyleMiddlewareTimingMiddleware.process_request\<close>: the request comes back
  with the started span saved on it.\<close>

definition OldStyleMiddlewareTimingMiddleware_process_request ::
  "request \<Rightarrow> world \<Rightarrow> (exception + unit) \<times> request \<times> world" where
  "OldStyleMiddlewareTimingMiddleware_process_request request w0 =
     (case TrackedRequest_instance w0 of
        (tracked_request, w1) \<Rightarrow>
          (case start_span tracked_request ''Middleware'' w1 of
             (sp, w2) \<Rightarrow>
               (let request' = request\<lparr>scout_middleware_span := Some sp\<rparr> in
                case track_request_queue_time request' tracked_request w2 of
                  (r, w3) \<Rightarrow> (r, request', w3))))"

text \<open>\<^verbatim>\<open>OldStyleMiddlewareTimingMiddleware.process_response\<close>: \<^verbatim>\<open>hasattr\<close> and
  the comparison with the current span guard the stop.\<close>

definition OldStyleMiddlewareTimingMiddleware_process_response ::
  "request \<Rightarrow> 'r \<Rightarrow> world \<Rightarrow> 'r \<times> world" where
  "OldStyleMiddlewareTimingMiddleware_process_response request response w0 =
     (case TrackedRequest_instance w0 of
        (tr, w1) \<Rightarrow>
          (case scout_middleware_span request of
             None \<Rightarrow> (response, w1)
           | Some saved \<Rightarrow>
               if current_span tr w1 = Some saved then (response, stop_span tr w1)
               else (response, w1)))"

text \<open>\<^verbatim>\<open>OldStyleViewMiddleware.process_view\<close>: only the username lookup stands under
  \<^verbatim>\<open>try ... except Exception: pass\<close>; an exception of the lines before it
  propagates.\<close>

definition OldStyleViewMiddleware_process_view ::
  "collaborators \<Rightarrow> request \<Rightarrow> world \<Rightarrow> (exception + unit) \<times> request \<times> world" where
  "OldStyleViewMiddleware_process_view deps request w0 =
     (case TrackedRequest_instance w0 of
        (tr, w1) \<Rightarrow>
          (case path request of
             Inl e \<Rightarrow> (Inl e, request, w1)
           | Inr p \<Rightarrow>
               (let w2 = (if ignore_path deps p then tag tr ''ignore_transaction'' (TBool True) w1
                          else w1)
                in case resolver_match request of
                     Inl e \<Rightarrow> (Inl e, request, w2)
                   | Inr view_name \<Rightarrow>
                       (case str_add ''Controller/'' view_name of
                          Inl e \<Rightarrow> (Inl e, request, w2)
                        | Inr name \<Rightarrow>
                            (case start_span tr name w2 of
                               (sp, w3) \<Rightarrow>
                                 (let w4 = mark_real_request tr w3;
                                      request' = request\<lparr>scout_view_span := Some sp\<rparr>
                                  in case user request' of
                                       Inr (Some (Inr username)) \<Rightarrow>
                                         (Inr (), request', Context_add ''username'' (TStr username) w4)
                                     | Inr (Some (Inl e)) \<Rightarrow> (Inr (), request', w4)
                                     | Inr None \<Rightarrow> (Inr (), request', w4)
                                     | Inl e \<Rightarrow> (Inr (), request', w4)))))))"

text \<open>\<^verbatim>\<open>OldStyleViewMiddleware.process_response\<close>.\<close>

definition OldStyleViewMiddleware_process_response ::
  "request \<Rightarrow> 'r \<Rightarrow> world \<Rightarrow> 'r \<times> world" where
  "OldStyleViewMiddleware_process_response request response w0 =
     (case TrackedRequest_instance w0 of
        (tr, w1) \<Rightarrow>
          (case scout_view_span request of
             None \<Rightarrow> (response, w1)
           | Some saved \<Rightarrow>
               if current_span tr w1 = Some saved then (response, stop_span tr w1)
               else (response, w1)))"

section \<open>The N+1 call-set detector\<close>

text \<open>
  Modelled from the spec: the call set and its items. The detector
  (\<^verbatim>\<open>scout_apm.core.n_plus_one_call_set\<close>) is missing from the source files; only a
  test that patches \<^verbatim>\<open>NPlusOneCallSetItem.should_capture_backtrace\<close> is there. An
  item holds the count of observations of one normalized signature and, optionally, the
  backtrace captured for it. \<open>captured\<close> lists, in order, the signatures a backtrace
  was captured for, one entry per capture.
\<close>

record call_set_item =
  count :: nat
  backtrace :: "string list option"

record call_set =
  items :: "string \<rightharpoonup> call_set_item"
  captured :: "string list"

text \<open>Modelled from the spec: the call set of a fresh request (the class
  \<^verbatim>\<open>NPlusOneCallSet\<close> is missing) has no item.\<close>

definition new_call_set :: call_set where
  "new_call_set = \<lparr>items = Map.empty, captured = []\<rparr>"

text \<open>Modelled from the spec: \<^verbatim>\<open>update(signature, capture_backtrace_policy)\<close>
  (\<^verbatim>\<open>NPlusOneCallSet.update\<close> is missing) normalizes the signature, increments or
  creates the matching item's count, and only if the running count has just crossed the
  fixed threshold and the policy returns true captures and stores a backtrace.
  \<open>normal_form\<close>, the threshold, the policy and the stack of the caller are parameters.\<close>

definition NPlusOneCallSet_update ::
  "(string \<Rightarrow> string) \<Rightarrow> nat \<Rightarrow> (call_set_item \<Rightarrow> bool) \<Rightarrow> string list \<Rightarrow> call_set \<Rightarrow> string
     \<Rightarrow> call_set" where
  "NPlusOneCallSet_update normal_form threshold policy stack cs signature =
     (let key = normal_form signature;
          old = (case items cs key of None \<Rightarrow> \<lparr>count = 0, backtrace = None\<rparr> | Some it \<Rightarrow> it);
          item = old\<lparr>count := Suc (count old)\<rparr>
      in if count old < threshold \<and> threshold \<le> count item \<and> policy item
         then \<lparr>items = (items cs)(key \<mapsto> item\<lparr>backtrace := Some stack\<rparr>),
               captured = captured cs @ [key]\<rparr>
         else cs\<lparr>items := (items cs)(key \<mapsto> item)\<rparr>)"

text \<open>The updates of one request, fed in order to its fresh call set.\<close>

definition feed ::
  "(string \<Rightarrow> string) \<Rightarrow> nat \<Rightarrow> (call_set_item \<Rightarrow> bool) \<Rightarrow> string list \<Rightarrow> string list \<Rightarrow> call_set" where
  "feed normal_form threshold policy stack signatures =
     foldl (NPlusOneCallSet_update normal_form threshold policy stack) new_call_set signatures"

section \<open>Concrete requests and states\<close>

definition empty_engine :: engine where
  "empty_engine =
     \<lparr>objects = (\<lambda>a. new_request 0), allocated = 0, current = None, exported = [],
      next_span = 0, now = 0, context_store = Map.empty\<rparr>"

definition empty_world :: world where
  "empty_world = \<lparr>eng = empty_engine, trace = []\<rparr>"

text \<open>A plain request for \<^verbatim>\<open>/hello/\<close>, resolved to a view, without a user.\<close>

definition hello_request :: request where
  "hello_request =
     \<lparr>META = Map.empty, path = Inr ''/hello/'', resolver_match = Inr (TStr ''app.views.hello''),
      user = Inl AttributeError, scout_middleware_span = None, scout_view_span = None\<rparr>"

definition no_collaborators :: collaborators where
  "no_collaborators = \<lparr>ignore_path = (\<lambda>p. False), lookup_from_headers = (\<lambda>m. Inr TNone)\<rparr>"



text \<open>The request and the world after the old-style \<^verbatim>\<open>process_request\<close>, and after
  the old-style \<^verbatim>\<open>process_view\<close>, of a plain request in an empty world.\<close>

definition middleware_started :: "request \<times> world" where
  "middleware_started =
     snd (OldStyleMiddlewareTimingMiddleware_process_request hello_request empty_world)"

definition view_started :: "request \<times> world" where
  "view_started = snd (OldStyleViewMiddleware_process_view no_collaborators hello_request empty_world)"

text \<open>A host whose URL resolver finds no view for the request: it answers 404 and runs
  neither \<^verbatim>\<open>process_view\<close> nor a view.\<close>

definition not_found :: "request \<Rightarrow> engine \<Rightarrow> (exception + nat) \<times> engine" where
  "not_found request e = (Inr 404, e)"

text \<open>The count of observations the call set holds for a normalized signature, zero when
  it has no item for it.\<close>

definition observations :: "call_set \<Rightarrow> string \<Rightarrow> nat" where
  "observations cs key = (case items cs key of None \<Rightarrow> 0 | Some it \<Rightarrow> count it)"

section \<open>Parsing the queue-start header\<close>

lemma py_float_error: "py_float s = Inl e \<Longrightarrow> e = ValueError"
  by (auto simp: py_float_def split: prod.splits option.splits if_splits)
















section \<open>Doubles\<close>

lemma round_half_even_nonneg: "0 \<le> n \<Longrightarrow> 0 < d \<Longrightarrow> 0 \<le> round_half_even n d"
  by (auto simp: round_half_even_def Let_def pos_imp_zdiv_nonneg_iff)

lemma to_double_nonneg: "0 \<le> n \<Longrightarrow> 0 < d \<Longrightarrow> 0 \<le> fst (to_double n d)"
  by (auto simp: to_double_def scale_def Let_def round_half_even_nonneg)

lemma queue_time_us_nonneg:
  assumes "0 \<le> x"
  shows "0 \<le> py_int (double_times (total_seconds x) 1000000)"
proof -
  obtain m e where t: "total_seconds x = (m, e)" by (cases "total_seconds x")
  have m: "0 \<le> m" using to_double_nonneg[of x 1000000] assms t by (simp add: total_seconds_def)
  obtain m' e' where d: "double_times (m, e) 1000000 = (m', e')"
    by (cases "double_times (m, e) 1000000")
  have "0 \<le> fst (double_times (m, e) 1000000)"
    using m by (auto simp: double_times_def intro!: to_double_nonneg)
  then have m': "0 \<le> m'" using d by simp
  show ?thesis
    using m' by (simp add: t d py_int_def pos_imp_zdiv_nonneg_iff)
qed

lemma queue_time_us_half_second: "py_int (double_times (total_seconds 500000) 1000000) = 500000"
  by code_simp

section \<open>Queue-time tagging\<close>

lemma float_rejected_header_skipped:
  assumes "header_value request = Some hv"
      and "py_float (timestamp_text (queue_time_re_sub hv)) = Inl e"
  shows "track_request_queue_time request tracked_request w = (Inr (), w)"
  using assms py_float_error[OF assms(2)]
  by (simp add: track_request_queue_time_def)

lemma empty_text_rejected: "py_float (timestamp_text []) = Inl ValueError"
  by code_simp

lemma track_request_queue_time_text:
  assumes "header_value request = Some hv"
  shows "track_request_queue_time request a w =
          (case py_float (timestamp_text (queue_time_re_sub hv)) of
             Inl e \<Rightarrow> (Inr (), w)
           | Inr timestamp \<Rightarrow>
               (case utcfromtimestamp timestamp of
                  Inl e \<Rightarrow> (Inl e, w)
                | Inr parsed_start \<Rightarrow>
                    if start_time (objects (eng w) a) < parsed_start then (Inr (), w)
                    else (Inr (), tag a ''scout.queue_time_us''
                            (TInt (py_int (double_times
                               (total_seconds (start_time (objects (eng w) a) - parsed_start))
                               1000000))) w)))"
proof (cases "hv = []")
  case True
  then show ?thesis using assms by (simp add: track_request_queue_time_def empty_text_rejected)
next
  case False
  then show ?thesis
    using assms py_float_error[of "timestamp_text (queue_time_re_sub hv)"]
    by (auto simp: track_request_queue_time_def Let_def split: sum.splits)
qed

lemma tag_tags:
  "tags (objects (eng (tag a key v w)) a) = (tags (objects (eng w) a))(key \<mapsto> v)"
  by (simp add: tag_def engine_tag_def)

lemma header_value_cases:
  "header_value request = Some hv \<longleftrightarrow>
     (META request ''HTTP_X_QUEUE_START'' = Some hv \<and> hv \<noteq> [])
     \<or> ((META request ''HTTP_X_QUEUE_START'' = None \<or> META request ''HTTP_X_QUEUE_START'' = Some [])
         \<and> META request ''HTTP_X_REQUEST_START'' = Some hv)"
  by (auto simp: header_value_def py_or_def split: option.splits)

lemma future_timestamp_ignored:
  assumes "header_value request = Some hv"
      and "py_float (timestamp_text (queue_time_re_sub hv)) = Inr ts"
      and "utcfromtimestamp ts = Inr p"
      and "start_time (objects (eng w) a) < p"
  shows "track_request_queue_time request a w = (Inr (), w)"
  using assms by (simp add: track_request_queue_time_text)

lemma track_request_queue_time_outcome:
  "\<exists>r w'. track_request_queue_time request a w = (r, w') \<and>
     (w' = w \<or> (\<exists>v. 0 \<le> v \<and> r = Inr () \<and> w' = tag a ''scout.queue_time_us'' (TInt v) w))"
proof (cases "header_value request")
  case None
  then show ?thesis by (simp add: track_request_queue_time_def)
next
  case (Some hv)
  show ?thesis
  proof (cases "py_float (timestamp_text (queue_time_re_sub hv))")
    case (Inl e)
    then show ?thesis using Some by (simp add: track_request_queue_time_text)
  next
    case ts: (Inr ts)
    show ?thesis
    proof (cases "utcfromtimestamp ts")
      case (Inl e)
      then show ?thesis using Some ts by (simp add: track_request_queue_time_text)
    next
      case p: (Inr p)
      show ?thesis
      proof (cases "start_time (objects (eng w) a) < p")
        case True
        then show ?thesis using Some ts p by (simp add: track_request_queue_time_text)
      next
        case False
        then have v: "0 \<le> py_int (double_times (total_seconds (start_time (objects (eng w) a) - p))
                                  1000000)"
          by (intro queue_time_us_nonneg) simp
        have "track_request_queue_time request a w =
                (Inr (), tag a ''scout.queue_time_us''
                   (TInt (py_int (double_times (total_seconds (start_time (objects (eng w) a) - p))
                                  1000000))) w)"
          using False Some ts p by (simp add: track_request_queue_time_text)
        with v show ?thesis by blast
      qed
    qed
  qed
qed

text \<open>
  Claim C5 says that a header value from which no valid float timestamp can be parsed is
  skipped without an error reaching the caller. The header \<^verbatim>\<open>t=1600000000e30\<close> is
  such a value: \<^verbatim>\<open>float\<close> accepts the text \<^verbatim>\<open>1600000000.e30\<close>, which is no
  timestamp a \<^verbatim>\<open>datetime\<close> can hold, and \<^verbatim>\<open>utcfromtimestamp\<close> raises
  \<^verbatim>\<open>OverflowError\<close> to the caller, whatever the tracked request and the world.
\<close>

theorem malformed_timestamp_raises:
  "py_float (timestamp_text (queue_time_re_sub ''t=1600000000e30'')) = Inr (Finite 1600000000 30)
   \<and> utcfromtimestamp (Finite 1600000000 30) = Inl OverflowError
   \<and> track_request_queue_time
         (hello_request\<lparr>META := [''HTTP_X_QUEUE_START'' \<mapsto> ''t=1600000000e30'']\<rparr>) a w
       = (Inl OverflowError, w)"
proof -
  have f: "py_float (timestamp_text (queue_time_re_sub ''t=1600000000e30'')) =
           Inr (Finite 1600000000 30)"
    by code_simp
  have u: "utcfromtimestamp (Finite 1600000000 30) = Inl OverflowError"
    by (simp add: utcfromtimestamp_def to_microseconds_def)
  have h: "header_value (hello_request\<lparr>META := [''HTTP_X_QUEUE_START'' \<mapsto> ''t=1600000000e30'']\<rparr>)
           = Some ''t=1600000000e30''"
    by (simp add: header_value_def py_or_def)
  show ?thesis
    using f u by (simp add: track_request_queue_time_text[OF h])
qed

text \<open>
  Claim C4 says that a header timestamp later than the start time of the tracked request
  makes the function return without tagging. With the header \<^verbatim>\<open>t=9999999999e20\<close> the
  parsed timestamp lies later than the start time, and the function does not return: it
  raises \<^verbatim>\<open>OverflowError\<close>.
\<close>

theorem far_future_timestamp_raises:
  "py_float (timestamp_text (queue_time_re_sub ''t=9999999999e20'')) = Inr (Finite 9999999999 20)
   \<and> start_time (objects (eng empty_world) 0) < to_microseconds 9999999999 20
   \<and> track_request_queue_time
         (hello_request\<lparr>META := [''HTTP_X_REQUEST_START'' \<mapsto> ''t=9999999999e20'']\<rparr>) 0 empty_world
       = (Inl OverflowError, empty_world)"
proof -
  have f: "py_float (timestamp_text (queue_time_re_sub ''t=9999999999e20'')) =
           Inr (Finite 9999999999 20)"
    by code_simp
  have u: "utcfromtimestamp (Finite 9999999999 20) = Inl OverflowError"
    by (simp add: utcfromtimestamp_def to_microseconds_def)
  have h: "header_value (hello_request\<lparr>META := [''HTTP_X_REQUEST_START'' \<mapsto> ''t=9999999999e20'']\<rparr>)
           = Some ''t=9999999999e20''"
    by (simp add: header_value_def py_or_def)
  have s: "start_time (objects (eng empty_world) 0) < to_microseconds 9999999999 20"
    by (simp add: empty_world_def empty_engine_def new_request_def to_microseconds_def)
  show ?thesis
    using f u s by (simp add: track_request_queue_time_text[OF h])
qed

text \<open>
  Claim C1. With the header \<^verbatim>\<open>X-Queue-Start\<close> (or, when that one is absent or
  empty, \<^verbatim>\<open>X-Request-Start\<close>) equal to \<^verbatim>\<open>t=1600000000.123000\<close> and a tracked
  request started half a second after 1600000000.123, the call adds the request-level tag
  \<^verbatim>\<open>scout.queue_time_us\<close> with value 500000. With a parsed timestamp strictly later
  than the start time, no tag is added.
\<close>

theorem queue_time_tagging:
  "((META request ''HTTP_X_QUEUE_START'' = Some ''t=1600000000.123000''
      \<or> ((META request ''HTTP_X_QUEUE_START'' = None \<or> META request ''HTTP_X_QUEUE_START'' = Some [])
          \<and> META request ''HTTP_X_REQUEST_START'' = Some ''t=1600000000.123000''))
     \<and> start_time (objects (eng w) a) = 1600000000123000 + 500000
    \<longrightarrow> track_request_queue_time request a w = (Inr (), tag a ''scout.queue_time_us'' (TInt 500000) w)
        \<and> tags (objects (eng (snd (track_request_queue_time request a w))) a) =
              (tags (objects (eng w) a))(''scout.queue_time_us'' \<mapsto> TInt 500000))
   \<and> (\<forall>hv ts p. header_value request = Some hv
          \<and> py_float (timestamp_text (queue_time_re_sub hv)) = Inr ts
          \<and> utcfromtimestamp ts = Inr p
          \<and> start_time (objects (eng w) a) < p
        \<longrightarrow> track_request_queue_time request a w = (Inr (), w)
            \<and> tags (objects (eng (snd (track_request_queue_time request a w))) a) = tags (objects (eng w) a))"
proof (intro conjI impI allI)
  assume h: "(META request ''HTTP_X_QUEUE_START'' = Some ''t=1600000000.123000''
      \<or> ((META request ''HTTP_X_QUEUE_START'' = None \<or> META request ''HTTP_X_QUEUE_START'' = Some [])
          \<and> META request ''HTTP_X_REQUEST_START'' = Some ''t=1600000000.123000''))
     \<and> start_time (objects (eng w) a) = 1600000000123000 + 500000"
  then have hv: "header_value request = Some ''t=1600000000.123000''"
    by (simp add: header_value_cases)
  have f: "py_float (timestamp_text ''1600000000123000'') = Inr (Finite 1600000000123 (- 3))"
    by code_simp
  have u: "utcfromtimestamp (Finite 1600000000123 (- 3)) = Inr 1600000000123000"
    by (simp add: utcfromtimestamp_def to_microseconds_def min_datetime_def max_datetime_def)
  show r: "track_request_queue_time request a w =
        (Inr (), tag a ''scout.queue_time_us'' (TInt 500000) w)"
    using h by (simp add: track_request_queue_time_text[OF hv] f u queue_time_us_half_second)
  show "tags (objects (eng (snd (track_request_queue_time request a w))) a) =
              (tags (objects (eng w) a))(''scout.queue_time_us'' \<mapsto> TInt 500000)"
    by (simp add: r tag_tags)
next
  fix hv ts p
  assume "header_value request = Some hv
          \<and> py_float (timestamp_text (queue_time_re_sub hv)) = Inr ts
          \<and> utcfromtimestamp ts = Inr p
          \<and> start_time (objects (eng w) a) < p"
  then have r: "track_request_queue_time request a w = (Inr (), w)"
    using future_timestamp_ignored by blast
  show "track_request_queue_time request a w = (Inr (), w)" by (rule r)
  show "tags (objects (eng (snd (track_request_queue_time request a w))) a) = tags (objects (eng w) a)"
    by (simp add: r)
qed


theorem queue_time_tagging_witness:
  "track_request_queue_time
      (hello_request\<lparr>META := [''HTTP_X_QUEUE_START'' \<mapsto> ''t=1600000000.123000'']\<rparr>) 0
      (empty_world\<lparr>eng := empty_engine\<lparr>objects := (\<lambda>a. new_request 1600000000623000)\<rparr>\<rparr>)
     = (Inr (), tag 0 ''scout.queue_time_us'' (TInt 500000)
          (empty_world\<lparr>eng := empty_engine\<lparr>objects := (\<lambda>a. new_request 1600000000623000)\<rparr>\<rparr>))
   \<and> track_request_queue_time
        (hello_request\<lparr>META := [''HTTP_X_QUEUE_START'' \<mapsto> ''t=1600000000.123000'']\<rparr>) 0 empty_world
     = (Inr (), empty_world)"
proof -
  let ?r = "hello_request\<lparr>META := [''HTTP_X_QUEUE_START'' \<mapsto> ''t=1600000000.123000'']\<rparr>"
  let ?w = "empty_world\<lparr>eng := empty_engine\<lparr>objects := (\<lambda>a. new_request 1600000000623000)\<rparr>\<rparr>"
  have m: "META ?r ''HTTP_X_QUEUE_START'' = Some ''t=1600000000.123000''" by simp
  have s: "start_time (objects (eng ?w) 0) = 1600000000123000 + 500000"
    by (simp add: new_request_def)
  have h1: "header_value ?r = Some ''t=1600000000.123000''"
    by (simp add: header_value_def py_or_def)
  have h2: "py_float (timestamp_text (queue_time_re_sub ''t=1600000000.123000'')) =
            Inr (Finite 1600000000123 (- 3))"
    by code_simp
  have h3: "utcfromtimestamp (Finite 1600000000123 (- 3)) = Inr 1600000000123000"
    by (simp add: utcfromtimestamp_def to_microseconds_def min_datetime_def max_datetime_def)
  have h4: "start_time (objects (eng empty_world) 0) < 1600000000123000"
    by (simp add: empty_world_def empty_engine_def new_request_def)
  have a: "track_request_queue_time ?r 0 ?w = (Inr (), tag 0 ''scout.queue_time_us'' (TInt 500000) ?w)"
    using queue_time_tagging[of ?r ?w 0] m s by blast
  have b: "track_request_queue_time ?r 0 empty_world = (Inr (), empty_world)"
    using queue_time_tagging[of ?r empty_world 0] h1 h2 h3 h4 by blast
  show ?thesis using a b by simp
qed



section \<open>Resolution of the parsed header\<close>




section \<open>Effects of the engine calls\<close>

lemmas world_ops = TrackedRequest_instance_def start_span_def stop_span_def tag_def
  mark_real_request_def set_operation_def Context_add_def current_span_def host_def
lemmas engine_ops = engine_instance_def engine_start_span_def engine_stop_span_def engine_tag_def
  engine_mark_real_request_def engine_set_operation_def engine_Context_add_def
  engine_current_span_def

lemma instance_trace: "trace (snd (TrackedRequest_instance w)) = trace w"
  by (simp add: TrackedRequest_instance_def split: prod.splits)

lemma instance_spans:
  "b < allocated (eng w) \<Longrightarrow>
     spans (objects (eng (snd (TrackedRequest_instance w))) b) = spans (objects (eng w) b)"
  by (simp add: TrackedRequest_instance_def engine_instance_def split: option.splits)



lemma tag_effect:
  "trace (tag a key v w) = trace w @ [Tag a key v]"
  "current (eng (tag a key v w)) = current (eng w)"
  "spans (objects (eng (tag a key v w)) b) = spans (objects (eng w) b)"
  "real_request (objects (eng (tag a key v w)) b) = real_request (objects (eng w) b)"
  "tags (objects (eng (tag a key v w)) a) key = Some v"
  by (simp_all add: tag_def engine_tag_def)



lemma mark_real_request_effect:
  "trace (mark_real_request a w) = trace w @ [MarkRealRequest a]"
  "current (eng (mark_real_request a w)) = current (eng w)"
  "spans (objects (eng (mark_real_request a w)) b) = spans (objects (eng w) b)"
  "tags (objects (eng (mark_real_request a w)) b) = tags (objects (eng w) b)"
  "real_request (objects (eng (mark_real_request a w)) a)"
  "current_span b (mark_real_request a w) = current_span b w"
  by (simp_all add: mark_real_request_def engine_mark_real_request_def current_span_def
        engine_current_span_def)

lemma start_span_effect:
  "trace (snd (start_span a name w)) = trace w @ [StartSpan a name]"
  "current (eng (snd (start_span a name w))) = current (eng w)"
  "tags (objects (eng (snd (start_span a name w))) b) = tags (objects (eng w) b)"
  "real_request (objects (eng (snd (start_span a name w))) b) = real_request (objects (eng w) b)"
  "length (spans (objects (eng (snd (start_span a name w))) a)) = Suc (length (spans (objects (eng w) a)))"
  "current_span a (snd (start_span a name w)) = Some (fst (start_span a name w))"
  by (simp_all add: start_span_def engine_start_span_def current_span_def engine_current_span_def
        Let_def)

lemma host_effect:
  "trace (snd (host get_response request w)) = trace w @ [GetResponse]"
  "fst (host get_response request w) = fst (get_response request (eng w))"
  by (simp_all add: host_def case_prod_beta)

lemma stop_span_trace: "trace (stop_span a w) = trace w @ [StopSpan a]"
  by (simp add: stop_span_def)

section \<open>Stopping a span by identity\<close>

text \<open>
  Claim C6. \<^verbatim>\<open>OldStyleMiddlewareTimingMiddleware.process_response\<close> and
  \<^verbatim>\<open>OldStyleViewMiddleware.process_response\<close> return the response as given. They call
  \<^verbatim>\<open>stop_span\<close> once, popping the top span, exactly when the request carries a saved
  span and the current span of the tracked request is that very span. When the saved span
  is absent or is not the current span, they issue no call and every span stack is as it
  was.
\<close>

theorem process_response_stops_only_saved_span:
  "(case TrackedRequest_instance w of
      (tr, w1) \<Rightarrow>
        (case OldStyleMiddlewareTimingMiddleware_process_response request response w of
           (r, w') \<Rightarrow>
             r = response \<and>
             (if scout_middleware_span request \<noteq> None
                 \<and> current_span tr w1 = scout_middleware_span request
              then trace w' = trace w @ [StopSpan tr]
                   \<and> spans (objects (eng w') tr) = tl (spans (objects (eng w1) tr))
              else trace w' = trace w
                   \<and> (\<forall>b. spans (objects (eng w') b) = spans (objects (eng w1) b))
                   \<and> (\<forall>b. b < allocated (eng w) \<longrightarrow>
                          spans (objects (eng w') b) = spans (objects (eng w) b)))))
   \<and> (case TrackedRequest_instance w of
      (tr, w1) \<Rightarrow>
        (case OldStyleViewMiddleware_process_response request response w of
           (r, w') \<Rightarrow>
             r = response \<and>
             (if scout_view_span request \<noteq> None
                 \<and> current_span tr w1 = scout_view_span request
              then trace w' = trace w @ [StopSpan tr]
                   \<and> spans (objects (eng w') tr) = tl (spans (objects (eng w1) tr))
              else trace w' = trace w
                   \<and> (\<forall>b. spans (objects (eng w') b) = spans (objects (eng w1) b))
                   \<and> (\<forall>b. b < allocated (eng w) \<longrightarrow>
                          spans (objects (eng w') b) = spans (objects (eng w) b)))))"
proof -
  obtain tr w1 where i: "TrackedRequest_instance w = (tr, w1)" by (cases "TrackedRequest_instance w")
  have t1: "trace w1 = trace w" using instance_trace[of w] i by simp
  have s1: "b < allocated (eng w) \<Longrightarrow> spans (objects (eng w1) b) = spans (objects (eng w) b)" for b
    using instance_spans[of b w] i by simp
  have pop: "current_span tr w1 = Some sp \<Longrightarrow>
               trace (stop_span tr w1) = trace w @ [StopSpan tr]
               \<and> spans (objects (eng (stop_span tr w1)) tr) = tl (spans (objects (eng w1) tr))" for sp
    by (auto simp: t1 stop_span_def current_span_def engine_current_span_def engine_stop_span_def
          Let_def split: list.splits)
  show ?thesis
    unfolding OldStyleMiddlewareTimingMiddleware_process_response_def
      OldStyleViewMiddleware_process_response_def i
    using pop t1 s1 by (auto split: option.splits)
qed

lemma middleware_started_eval:
  "scout_middleware_span (fst middleware_started) = Some 0"
  "scout_view_span (fst middleware_started) = None"
  "TrackedRequest_instance (snd middleware_started) = (0, snd middleware_started)"
  "current_span 0 (snd middleware_started) = Some 0"
  by (simp_all add: middleware_started_def OldStyleMiddlewareTimingMiddleware_process_request_def
        hello_request_def empty_world_def empty_engine_def world_ops engine_ops new_request_def
        track_request_queue_time_def header_value_def py_or_def Let_def)

lemma view_started_eval:
  "scout_view_span (fst view_started) = Some 0"
  "scout_middleware_span (fst view_started) = None"
  "TrackedRequest_instance (snd view_started) = (0, snd view_started)"
  "current_span 0 (snd view_started) = Some 0"
  by (simp_all add: view_started_def OldStyleViewMiddleware_process_view_def no_collaborators_def
        hello_request_def empty_world_def empty_engine_def world_ops engine_ops new_request_def
        str_add_def Let_def)

theorem process_response_stops_only_saved_span_witness:
  "trace (snd (OldStyleMiddlewareTimingMiddleware_process_response (fst middleware_started) (200::nat)
                 (snd middleware_started)))
     = trace (snd middleware_started) @ [StopSpan 0]
   \<and> trace (snd (OldStyleViewMiddleware_process_response (fst middleware_started) (200::nat)
                 (snd middleware_started)))
     = trace (snd middleware_started)
   \<and> trace (snd (OldStyleViewMiddleware_process_response (fst view_started) (200::nat)
                 (snd view_started)))
     = trace (snd view_started) @ [StopSpan 0]
   \<and> trace (snd (OldStyleMiddlewareTimingMiddleware_process_response (fst view_started) (200::nat)
                 (snd view_started)))
     = trace (snd view_started)"
  using process_response_stops_only_saved_span
          [where w = "snd middleware_started" and request = "fst middleware_started"
             and response = "200::nat"]
        process_response_stops_only_saved_span
          [where w = "snd view_started" and request = "fst view_started" and response = "200::nat"]
  by (simp add: middleware_started_eval view_started_eval case_prod_beta)

section \<open>Ignored paths\<close>





lemma new_style_process_view_returns:
  "fst (ViewTimingMiddleware_process_view deps request w) = Inr ()"
  by (simp add: ViewTimingMiddleware_process_view_def case_prod_beta split: sum.splits)



section \<open>Exceptions in \<^verbatim>\<open>process_view\<close>\<close>

text \<open>
  Claim C3 says that \<^verbatim>\<open>process_view\<close> catches an exception raised by the request's
  attributes and returns normally. \<^verbatim>\<open>OldStyleViewMiddleware.process_view\<close> does not:
  with a request whose \<^verbatim>\<open>resolver_match\<close> access raises \<^verbatim>\<open>AttributeError\<close> the
  exception propagates, and with a \<^verbatim>\<open>_func_path\<close> that is \<^verbatim>\<open>None\<close> the
  concatenation raises \<^verbatim>\<open>TypeError\<close>, which propagates too. At the same requests
  \<^verbatim>\<open>ViewTimingMiddleware.process_view\<close> returns normally.
\<close>

theorem old_style_process_view_propagates:
  "fst (OldStyleViewMiddleware_process_view no_collaborators
          (hello_request\<lparr>resolver_match := Inl AttributeError\<rparr>) empty_world) = Inl AttributeError
   \<and> fst (ViewTimingMiddleware_process_view no_collaborators
          (hello_request\<lparr>resolver_match := Inl AttributeError\<rparr>) empty_world) = Inr ()
   \<and> fst (OldStyleViewMiddleware_process_view no_collaborators
          (hello_request\<lparr>resolver_match := Inr TNone\<rparr>) empty_world) = Inl TypeError
   \<and> fst (ViewTimingMiddleware_process_view no_collaborators
          (hello_request\<lparr>resolver_match := Inr TNone\<rparr>) empty_world) = Inr ()"
  by (simp add: OldStyleViewMiddleware_process_view_def hello_request_def no_collaborators_def
        case_prod_beta str_add_def new_style_process_view_returns)

section \<open>The new-style \<^verbatim>\<open>__call__\<close>\<close>

lemma ViewTimingMiddleware_call_trace:
  "trace (snd (ViewTimingMiddleware_call get_response request w)) =
     trace w @ [MarkRealRequest (fst (TrackedRequest_instance w)),
                StartSpan (fst (TrackedRequest_instance w)) ''Unknown'',
                GetResponse,
                StopSpan (fst (TrackedRequest_instance w))]"
  by (simp add: ViewTimingMiddleware_call_def Let_def case_prod_beta host_def stop_span_def
        start_span_effect mark_real_request_effect instance_trace)

lemma ViewTimingMiddleware_call_result:
  "fst (ViewTimingMiddleware_call get_response request w) =
     fst (get_response request
            (eng (snd (start_span (fst (TrackedRequest_instance w)) ''Unknown''
                  (mark_real_request (fst (TrackedRequest_instance w))
                     (snd (TrackedRequest_instance w)))))))"
  by (simp add: ViewTimingMiddleware_call_def host_def Let_def case_prod_beta)

text \<open>
  Claim C2 says that \<^verbatim>\<open>mark_real_request\<close> is invoked only when a view runs. At a
  request that the host answers with 404 without reaching \<^verbatim>\<open>process_view\<close> or a
  view, \<^verbatim>\<open>ViewTimingMiddleware.__call__\<close> has already marked the tracked request as
  real: the call is its first, before \<^verbatim>\<open>get_response\<close>.
\<close>

theorem real_request_marked_without_view:
  "fst (ViewTimingMiddleware_call not_found (hello_request\<lparr>path := Inr ''/not-found/''\<rparr>) empty_world)
     = Inr 404
   \<and> trace (snd (ViewTimingMiddleware_call not_found (hello_request\<lparr>path := Inr ''/not-found/''\<rparr>)
                   empty_world))
     = [MarkRealRequest 0, StartSpan 0 ''Unknown'', GetResponse, StopSpan 0]
   \<and> real_request (objects (eng (snd (ViewTimingMiddleware_call not_found
                   (hello_request\<lparr>path := Inr ''/not-found/''\<rparr>) empty_world))) 0)"
  by (simp add: ViewTimingMiddleware_call_def not_found_def world_ops engine_ops empty_world_def
        empty_engine_def new_request_def Let_def)

lemma queue_start_overflow:
  "track_request_queue_time
     (hello_request\<lparr>META := [''HTTP_X_QUEUE_START'' \<mapsto> ''t=1234567890e99'']\<rparr>) a w
   = (Inl OverflowError, w)"
proof -
  have f: "py_float (timestamp_text ''1234567890e99'') = Inr (Finite 1234567890 99)"
    by code_simp
  have u: "utcfromtimestamp (Finite 1234567890 99) = Inl OverflowError"
    by (simp add: utcfromtimestamp_def to_microseconds_def)
  show ?thesis
    by (simp add: track_request_queue_time_def header_value_def py_or_def f u)
qed

text \<open>
  Claim C7 says that every invocation starts one span, stops one span and passes on the
  outcome of \<^verbatim>\<open>get_response\<close>. At a request with the header
  \<^verbatim>\<open>X-Queue-Start: t=1234567890e99\<close>, whatever \<^verbatim>\<open>get_response\<close> is,
  \<^verbatim>\<open>MiddlewareTimingMiddleware.__call__\<close> raises \<^verbatim>\<open>OverflowError\<close> after
  \<^verbatim>\<open>start_span\<close>: \<^verbatim>\<open>get_response\<close> is never called, no span is stopped and the
  started span stays open.
\<close>

theorem queue_start_overflow_aborts_request:
  "fst (MiddlewareTimingMiddleware_call get_response
          (hello_request\<lparr>META := [''HTTP_X_QUEUE_START'' \<mapsto> ''t=1234567890e99'']\<rparr>) empty_world)
     = Inl OverflowError
   \<and> trace (snd (MiddlewareTimingMiddleware_call get_response
          (hello_request\<lparr>META := [''HTTP_X_QUEUE_START'' \<mapsto> ''t=1234567890e99'']\<rparr>) empty_world))
     = [StartSpan 0 ''Middleware'']
   \<and> length (spans (objects (eng (snd (MiddlewareTimingMiddleware_call get_response
          (hello_request\<lparr>META := [''HTTP_X_QUEUE_START'' \<mapsto> ''t=1234567890e99'']\<rparr>) empty_world)))
        0)) = 1"
  by (simp add: MiddlewareTimingMiddleware_call_def queue_start_overflow case_prod_beta
        TrackedRequest_instance_def engine_instance_def start_span_def engine_start_span_def
        empty_world_def empty_engine_def new_request_def Let_def)

lemma MiddlewareTimingMiddleware_call_balanced:
  assumes "fst (track_request_queue_time request (fst (TrackedRequest_instance w))
             (snd (start_span (fst (TrackedRequest_instance w)) ''Middleware''
                (snd (TrackedRequest_instance w))))) = Inr ()"
  shows "\<exists>queue_tag tr.
           trace (snd (MiddlewareTimingMiddleware_call get_response request w)) =
             trace w @ [StartSpan (fst (TrackedRequest_instance w)) ''Middleware''] @ queue_tag
                     @ [GetResponse, StopSpan tr]
           \<and> (\<forall>c\<in>set queue_tag. \<exists>v. c = Tag (fst (TrackedRequest_instance w)) ''scout.queue_time_us'' v)"
proof -
  obtain a w1 where i: "TrackedRequest_instance w = (a, w1)" by (cases "TrackedRequest_instance w")
  have t1: "trace w1 = trace w" using instance_trace[of w] i by simp
  obtain sp w2 where s: "start_span a ''Middleware'' w1 = (sp, w2)"
    by (cases "start_span a ''Middleware'' w1")
  have t2: "trace w2 = trace w @ [StartSpan a ''Middleware'']"
    using start_span_effect(1)[of a "''Middleware''" w1] s t1 by simp
  obtain w3 where q: "track_request_queue_time request a w2 = (Inr (), w3)"
    using assms i s by (cases "track_request_queue_time request a w2") auto
  have t3: "trace w3 = trace w2 \<or> (\<exists>v. trace w3 = trace w2 @ [Tag a ''scout.queue_time_us'' (TInt v)])"
    using track_request_queue_time_outcome[of request a w2] q by (auto simp: tag_effect)
  have c: "MiddlewareTimingMiddleware_call get_response request w =
             (fst (host get_response request w3),
              stop_span (fst (TrackedRequest_instance (snd (host get_response request w3))))
                        (snd (TrackedRequest_instance (snd (host get_response request w3)))))"
    by (simp add: MiddlewareTimingMiddleware_call_def i s q case_prod_beta)
  have t: "trace (snd (MiddlewareTimingMiddleware_call get_response request w)) =
             trace w3 @ [GetResponse,
               StopSpan (fst (TrackedRequest_instance (snd (host get_response request w3))))]"
    by (simp add: c stop_span_trace instance_trace host_effect)
  from t3 show ?thesis
  proof
    assume "trace w3 = trace w2"
    then have "trace (snd (MiddlewareTimingMiddleware_call get_response request w)) =
             trace w @ [StartSpan (fst (TrackedRequest_instance w)) ''Middleware''] @ []
                     @ [GetResponse, StopSpan (fst (TrackedRequest_instance (snd (host get_response request w3))))]"
      by (simp add: t t2 i)
    then show ?thesis by (metis empty_iff empty_set)
  next
    assume "\<exists>v. trace w3 = trace w2 @ [Tag a ''scout.queue_time_us'' (TInt v)]"
    then obtain v where "trace w3 = trace w2 @ [Tag a ''scout.queue_time_us'' (TInt v)]" by blast
    then have "trace (snd (MiddlewareTimingMiddleware_call get_response request w)) =
             trace w @ [StartSpan (fst (TrackedRequest_instance w)) ''Middleware'']
                     @ [Tag (fst (TrackedRequest_instance w)) ''scout.queue_time_us'' (TInt v)]
                     @ [GetResponse, StopSpan (fst (TrackedRequest_instance (snd (host get_response request w3))))]"
      by (simp add: t t2 i)
    moreover have "\<forall>c\<in>set [Tag (fst (TrackedRequest_instance w)) ''scout.queue_time_us'' (TInt v)].
                     \<exists>v. c = Tag (fst (TrackedRequest_instance w)) ''scout.queue_time_us'' v"
      by simp
    ultimately show ?thesis by blast
  qed
qed


section \<open>The N+1 detector\<close>

lemma update_observations:
  "observations (NPlusOneCallSet_update nf th pol st cs s) k =
     (if k = nf s then Suc (observations cs k) else observations cs k)"
  by (simp add: NPlusOneCallSet_update_def observations_def Let_def split: option.splits)

lemma update_captured:
  "count_list (captured (NPlusOneCallSet_update nf th pol st cs s)) k =
     count_list (captured cs) k +
       (if k = nf s \<and> observations cs k < th \<and> th \<le> Suc (observations cs k)
           \<and> pol ((case items cs (nf s) of None \<Rightarrow> \<lparr>count = 0, backtrace = None\<rparr> | Some it \<Rightarrow> it)
                     \<lparr>count := Suc (observations cs k)\<rparr>)
        then 1 else 0)"
  by (auto simp: NPlusOneCallSet_update_def observations_def Let_def split: option.splits)

lemma foldl_update_observations:
  "observations (foldl (NPlusOneCallSet_update nf th pol st) cs sigs) k =
     observations cs k + count_list (map nf sigs) k"
  by (induction sigs arbitrary: cs) (simp_all add: update_observations)

lemma foldl_update_captured:
  assumes "0 < th" and "\<forall>it. pol it"
  shows "count_list (captured cs) k = (if th \<le> observations cs k then 1 else 0) \<Longrightarrow>
         count_list (captured (foldl (NPlusOneCallSet_update nf th pol st) cs sigs)) k =
           (if th \<le> observations cs k + count_list (map nf sigs) k then 1 else 0)"
proof (induction sigs arbitrary: cs)
  case Nil
  then show ?case by simp
next
  case (Cons s sigs)
  let ?cs = "NPlusOneCallSet_update nf th pol st cs s"
  have "count_list (captured ?cs) k = (if th \<le> observations ?cs k then 1 else 0)"
    using Cons.prems assms by (auto simp: update_captured update_observations)
  from Cons.IH[OF this] show ?case by (simp add: update_observations)
qed

lemma foldl_update_captured_le:
  shows "count_list (captured cs) k \<le> (if th \<le> observations cs k then 1 else 0) \<Longrightarrow>
         count_list (captured (foldl (NPlusOneCallSet_update nf th pol st) cs sigs)) k \<le> 1"
proof (induction sigs arbitrary: cs)
  case Nil
  then show ?case by (simp split: if_splits)
next
  case (Cons s sigs)
  let ?cs = "NPlusOneCallSet_update nf th pol st cs s"
  have "count_list (captured ?cs) k \<le> (if th \<le> observations ?cs k then 1 else 0)"
    using Cons.prems by (auto simp: update_captured update_observations split: if_splits)
  from Cons.IH[OF this] show ?case by simp
qed

text \<open>
  Claim C9. Within one request, with a positive threshold and a capture policy that
  returns true, the number of backtrace captures for a normalized signature is one if the
  signature was fed at least threshold times and zero if it was fed fewer times, whatever
  other signatures were fed in between; and under any policy it is never more than one.
\<close>

theorem n_plus_one_captures_once:
  assumes "0 < threshold" and "\<forall>it. policy it"
  shows "count_list (captured (feed nf threshold policy stack sigs)) k =
           (if threshold \<le> count_list (map nf sigs) k then 1 else 0)
         \<and> count_list (captured (feed nf threshold any_policy stack sigs)) k \<le> 1"
proof
  have z: "observations new_call_set k = 0" by (simp add: observations_def new_call_set_def)
  have c: "count_list (captured new_call_set) k = (if threshold \<le> observations new_call_set k then 1 else 0)"
    using assms(1) by (simp add: z) (simp add: new_call_set_def)
  show "count_list (captured (feed nf threshold policy stack sigs)) k =
           (if threshold \<le> count_list (map nf sigs) k then 1 else 0)"
    using foldl_update_captured[OF assms c, of nf stack sigs] by (simp add: feed_def z)
  have "count_list (captured new_call_set) k \<le> (if threshold \<le> observations new_call_set k then 1 else 0)"
    using c by simp
  from foldl_update_captured_le[OF this]
  show "count_list (captured (feed nf threshold any_policy stack sigs)) k \<le> 1"
    by (simp add: feed_def)
qed

theorem n_plus_one_captures_once_witness:
  "count_list (captured (feed (\<lambda>s. s) 5 (\<lambda>it. True) [''views.py''] (replicate 5 ''SELECT 1''))) ''SELECT 1'' = 1
   \<and> count_list (captured (feed (\<lambda>s. s) 5 (\<lambda>it. True) [''views.py''] (replicate 4 ''SELECT 1''))) ''SELECT 1'' = 0
   \<and> count_list (captured (feed (\<lambda>s. s) 5 (\<lambda>it. True) [''views.py''] (replicate 9 ''SELECT 1''))) ''SELECT 1'' = 1"
proof -
  have t: "(0::nat) < 5" by simp
  have p: "\<forall>it::call_set_item. (\<lambda>it. True) it" by simp
  have r: "count_list (replicate n x) x = n" for n and x :: string
    by (induction n) simp_all
  show ?thesis
    using n_plus_one_captures_once[OF t p, of "\<lambda>s. s" "[''views.py'']" "replicate 5 ''SELECT 1''" "''SELECT 1''"]
          n_plus_one_captures_once[OF t p, of "\<lambda>s. s" "[''views.py'']" "replicate 4 ''SELECT 1''" "''SELECT 1''"]
          n_plus_one_captures_once[OF t p, of "\<lambda>s. s" "[''views.py'']" "replicate 9 ''SELECT 1''" "''SELECT 1''"]
    by (simp add: r)
qed


end
